theory Spec2Isabelle
  imports Main
begin

section \<open>Values, exceptions and injected services\<close>

text \<open>
  The authentication service of the bookstore returns JavaScript values: \<open>register\<close>
  returns the signed token itself (a string), \<open>login\<close> and \<open>OAuthGoogleCallback\<close> return
  the object \<open>{ token }\<close>. A JWT payload is an object too. Identifiers are the opaque
  \<open>cuid()\<close> strings of the schema; they are modelled as natural numbers drawn from a
  counter that the store keeps.
\<close>

datatype jsval =
    JString string
  | JCuid nat
  | JNum nat
  | JObject "(string \<times> jsval) list"

type_synonym payload = "(string \<times> jsval) list"

text \<open>
  The exceptions the code throws (\<open>@nestjs/common\<close>), the errors of the Prisma client
  (the unique-constraint error, code P2002, with the columns of the violated index, and
  the validation error for an argument it does not accept) and the \<open>TypeError\<close> of reading
  a property of \<open>undefined\<close>. \<open>getStatus\<close> is the HTTP status the framework
  answers with; an exception that is not an \<open>HttpException\<close> is answered with 500.
\<close>

datatype exception =
    BadRequestException string
  | ConflictException string
  | ForbiddenException string
  | PrismaUniqueConstraintError "string list"
  | PrismaClientValidationError
  | TypeError string

fun getStatus :: "exception \<Rightarrow> nat" where
  "getStatus (BadRequestException m) = 400"
| "getStatus (ConflictException m) = 409"
| "getStatus (ForbiddenException m) = 403"
| "getStatus (PrismaUniqueConstraintError cols) = 500"
| "getStatus PrismaClientValidationError = 500"
| "getStatus (TypeError m) = 500"

text \<open>
  \<open>JwtService\<close> and \<open>bcrypt\<close> are libraries the service is constructed with. They are
  parameters of every operation, so that a theorem holds for every signing and every
  hashing function. The module configures \<open>expiresIn: '7d'\<close>, so a token carries the time
  it was issued at and its expiry: signing and verifying take the time of the call (in
  seconds) as their first argument, and two signings of one payload at different times
  need not give the same token. \<open>verifyAsync\<close> returns \<open>None\<close> where the library throws.
  The salt that bcrypt draws for a hash is left out.
\<close>

record JwtService =
  signAsync :: "nat \<Rightarrow> payload \<Rightarrow> string"
  verifyAsync :: "nat \<Rightarrow> string \<Rightarrow> payload option"

text \<open>The lifetime \<open>'7d'\<close> that \<open>core.module.ts\<close> gives every signed token, in seconds.\<close>

definition expiresIn :: nat where
  "expiresIn = 7 * 24 * 60 * 60"

record Bcrypt =
  bcrypt_hash :: "string \<Rightarrow> nat \<Rightarrow> string"
  bcrypt_compare :: "string \<Rightarrow> string \<Rightarrow> bool"

section \<open>The identity store\<close>

datatype Role = SUPER_ADMIN | ADMIN | SELLER | CUSTOMER | MODERATOR

datatype OAuthProvider = Google | FACEBOOK | GITHUB | APPLE

text \<open>
  The columns of the three tables that the authentication code reads or writes, with the
  defaults of the migration: role \<open>CUSTOMER\<close>, \<open>isEmailVerified\<close> false, \<open>isTwoFA\<close> false,
  \<open>isActive\<close> true. The code writes a \<open>username\<close> where the first migration has \<open>name\<close>.
\<close>

record User =
  user_id :: nat
  user_email :: string
  user_password :: "string option"
  user_firstName :: "string option"
  user_lastName :: "string option"
  user_username :: string
  user_role :: Role
  user_isEmailVerified :: bool
  user_isTwoFA :: bool
  user_isActive :: bool

record OAuthAccount =
  oa_id :: nat
  oa_userId :: nat
  oa_provider :: OAuthProvider
  oa_providerId :: string

record RefreshToken =
  rt_id :: nat
  rt_token :: string
  rt_userId :: nat
  rt_expiresAt :: nat

record Database =
  user_table :: "User list"
  oAuthAccount_table :: "OAuthAccount list"
  refreshToken_table :: "RefreshToken list"
  cuid_counter :: nat

text \<open>\<open>db.user.findFirst({ where: { email } })\<close>: the first row with that email.\<close>

definition user_findFirst :: "Database \<Rightarrow> string \<Rightarrow> User option" where
  "user_findFirst db e = find (\<lambda>u. user_email u = e) (user_table db)"

text \<open>\<open>include: { OAuthAccount: true }\<close>: the accounts whose owner is the user.\<close>

definition include_OAuthAccount :: "Database \<Rightarrow> User \<Rightarrow> OAuthAccount list" where
  "include_OAuthAccount db u =
     filter (\<lambda>a. oa_userId a = user_id u) (oAuthAccount_table db)"

text \<open>
  What \<open>data\<close> of \<open>db.user.create\<close> can hold beyond the fields that the callers write out:
  a value for the id and for each column that has a default. \<open>register\<close> spreads the
  request body into \<open>data\<close>, and nothing validates the body, so these are under the
  control of the client. \<open>extra_invalid\<close> says that the object has a key that is not a
  field of the model, or a value of the wrong type; the Prisma client then refuses the
  call with a validation error. (Nested writes on relation fields are not modelled:
  their names are in \<open>schema.prisma\<close>, which is not among the sources.)
\<close>

record ExtraKeys =
  extra_id :: "nat option"
  extra_role :: "Role option"
  extra_isEmailVerified :: "bool option"
  extra_isTwoFA :: "bool option"
  extra_isActive :: "bool option"
  extra_invalid :: bool

definition no_extra :: ExtraKeys where
  "no_extra = \<lparr> extra_id = None, extra_role = None, extra_isEmailVerified = None,
                extra_isTwoFA = None, extra_isActive = None, extra_invalid = False \<rparr>"

text \<open>
  \<open>db.user.create\<close>: the client refuses data it cannot validate; the unique index on
  \<open>email\<close> rejects a second row with the same email, and the primary key a second row
  with the same id. Otherwise the row is created: a column that \<open>data\<close> names takes that
  value, any other the default of the schema, and the id is a fresh \<open>cuid()\<close> unless
  \<open>data\<close> gives one. The counter stands for the ids that no row uses yet and stays above
  every id in use.
\<close>

definition user_create ::
  "Database \<Rightarrow> string \<Rightarrow> string option \<Rightarrow> string option \<Rightarrow> string option \<Rightarrow> string
     \<Rightarrow> ExtraKeys \<Rightarrow> exception + (User \<times> Database)" where
  "user_create db e pw fn ln un x =
     (if extra_invalid x then Inl PrismaClientValidationError
      else if find (\<lambda>u. user_email u = e) (user_table db) \<noteq> None
      then Inl (PrismaUniqueConstraintError [''email''])
      else if (case extra_id x of None \<Rightarrow> False
               | Some i \<Rightarrow> find (\<lambda>u. user_id u = i) (user_table db) \<noteq> None)
      then Inl (PrismaUniqueConstraintError [''id''])
      else
        let i = (case extra_id x of None \<Rightarrow> cuid_counter db | Some i \<Rightarrow> i);
            u = \<lparr> user_id = i, user_email = e, user_password = pw,
                  user_firstName = fn, user_lastName = ln, user_username = un,
                  user_role = (case extra_role x of None \<Rightarrow> CUSTOMER | Some r \<Rightarrow> r),
                  user_isEmailVerified =
                    (case extra_isEmailVerified x of None \<Rightarrow> False | Some b \<Rightarrow> b),
                  user_isTwoFA = (case extra_isTwoFA x of None \<Rightarrow> False | Some b \<Rightarrow> b),
                  user_isActive = (case extra_isActive x of None \<Rightarrow> True | Some b \<Rightarrow> b) \<rparr>
        in Inr (u, db \<lparr> user_table := user_table db @ [u],
                        cuid_counter := Suc (max (cuid_counter db) i) \<rparr>))"

text \<open>
  \<open>db.oAuthAccount.create\<close>: the unique indexes on \<open>(provider, providerId)\<close> and on
  \<open>(userId, provider)\<close> reject a duplicate.
\<close>

definition oAuthAccount_create ::
  "Database \<Rightarrow> OAuthProvider \<Rightarrow> string \<Rightarrow> nat \<Rightarrow> exception + (OAuthAccount \<times> Database)" where
  "oAuthAccount_create db p pid uid =
     (if find (\<lambda>a. oa_provider a = p \<and> oa_providerId a = pid) (oAuthAccount_table db) \<noteq> None
      then Inl (PrismaUniqueConstraintError [''provider'', ''providerId''])
      else if find (\<lambda>a. oa_userId a = uid \<and> oa_provider a = p) (oAuthAccount_table db) \<noteq> None
      then Inl (PrismaUniqueConstraintError [''userId'', ''provider''])
      else
        let a = \<lparr> oa_id = cuid_counter db, oa_userId = uid, oa_provider = p,
                  oa_providerId = pid \<rparr>
        in Inr (a, db \<lparr> oAuthAccount_table := oAuthAccount_table db @ [a],
                        cuid_counter := Suc (cuid_counter db) \<rparr>))"

section \<open>AuthService\<close>

text \<open>
  The body of \<open>POST /auth/register\<close>: the five fields of the declared type and, since the
  body is not validated, whatever else the client sent (\<open>extra\<close>).
\<close>

record RegisterData =
  email :: string
  password :: string
  firstName :: string
  lastName :: string
  username :: string
  extra :: ExtraKeys

text \<open>
  Every operation takes the time of the call and returns what the caller sees (the
  exception thrown or the value returned) and the store it leaves behind.

  \<open>register\<close>: \<open>data: { ...data, password: hashedPassword }\<close> hands the whole body to
  \<open>user.create\<close>, with the password replaced by its hash.
\<close>

definition register ::
  "Bcrypt \<Rightarrow> JwtService \<Rightarrow> nat \<Rightarrow> Database \<Rightarrow> RegisterData
     \<Rightarrow> (exception + jsval) \<times> Database" where
  "register bc jwt now db data =
     (case user_findFirst db (email data) of
        Some findUser \<Rightarrow> (Inl (ConflictException ''User already exists''), db)
      | None \<Rightarrow>
          let hashedPassword = bcrypt_hash bc (password data) 12 in
          (case user_create db (email data) (Some hashedPassword)
                  (Some (firstName data)) (Some (lastName data)) (username data)
                  (extra data) of
             Inl e \<Rightarrow> (Inl e, db)
           | Inr (user, db') \<Rightarrow>
               (Inr (JString (signAsync jwt now [(''userId'', JCuid (user_id user))])), db')))"

text \<open>
  \<open>login\<close>: the two fields of its body \<open>{ email, password }\<close> are the last two arguments.
  \<open>!find_user?.password\<close> is true for a missing password and for the empty string.
\<close>

definition login ::
  "Bcrypt \<Rightarrow> JwtService \<Rightarrow> nat \<Rightarrow> Database \<Rightarrow> string \<Rightarrow> string
     \<Rightarrow> (exception + jsval) \<times> Database" where
  "login bc jwt now db data_email data_password =
     (case user_findFirst db data_email of
        None \<Rightarrow> (Inl (BadRequestException ''User not found!''), db)
      | Some find_user \<Rightarrow>
          (case user_password find_user of
             None \<Rightarrow> (Inl (BadRequestException ''password no set''), db)
           | Some pw \<Rightarrow>
               if pw = [] then (Inl (BadRequestException ''password no set''), db)
               else if \<not> bcrypt_compare bc data_password pw
               then (Inl (BadRequestException ''Email or Password incorrect''), db)
               else (Inr (JObject [(''token'',
                        JString (signAsync jwt now
                          [(''userId'', JCuid (user_id find_user))]))]), db)))"

text \<open>
  What the Google strategy hands to the callback (\<open>req.user\<close>): the asserted email and the
  provider's subject id, both strings, and the optional profile names.
\<close>

record GoogleUser =
  g_email :: string
  g_firstName :: "string option"
  g_lastName :: "string option"
  g_username :: "string option"
  g_sub :: string

text \<open>\<open>String.prototype.split\<close> on a one-character separator, and indexing an array.\<close>

fun js_split :: "char \<Rightarrow> string \<Rightarrow> string list" where
  "js_split c [] = [[]]"
| "js_split c (x # xs) =
     (if x = c then [] # js_split c xs
      else (case js_split c xs of [] \<Rightarrow> [[x]] | w # ws \<Rightarrow> (x # w) # ws))"

fun js_index :: "'a list \<Rightarrow> nat \<Rightarrow> 'a option" where
  "js_index [] n = None"
| "js_index (x # xs) 0 = Some x"
| "js_index (x # xs) (Suc n) = js_index xs n"

text \<open>\<open>!token\<close>: true for \<open>undefined\<close> and for the empty string.\<close>

fun falsy :: "string option \<Rightarrow> bool" where
  "falsy None = True"
| "falsy (Some s) = (s = [])"

text \<open>\<open>user.username || user.email.split('@')[0]\<close>\<close>

definition username_or_local_part :: "GoogleUser \<Rightarrow> string" where
  "username_or_local_part user =
     (if falsy (g_username user)
      then (case js_index (js_split CHR ''@'' (g_email user)) 0 of None \<Rightarrow> [] | Some w \<Rightarrow> w)
      else (case g_username user of None \<Rightarrow> [] | Some n \<Rightarrow> n))"

text \<open>The object \<open>{ token }\<close> with the token signed for \<open>{ userId }\<close>.\<close>

definition token_for :: "JwtService \<Rightarrow> nat \<Rightarrow> nat \<Rightarrow> jsval" where
  "token_for jwt now uid =
     JObject [(''token'', JString (signAsync jwt now [(''userId'', JCuid uid)]))]"

text \<open>
  \<open>OAuthGoogleCallback\<close>: the writes are separate awaits, with no transaction around
  them; when the second one throws, the store keeps the first.
\<close>

definition OAuthGoogleCallback ::
  "JwtService \<Rightarrow> nat \<Rightarrow> Database \<Rightarrow> GoogleUser \<Rightarrow> (exception + jsval) \<times> Database" where
  "OAuthGoogleCallback jwt now db user =
     (case user_findFirst db (g_email user) of
        None \<Rightarrow>
          (case user_create db (g_email user) None (g_firstName user) (g_lastName user)
                  (username_or_local_part user) no_extra of
             Inl e \<Rightarrow> (Inl e, db)
           | Inr (newUser, db1) \<Rightarrow>
               (case oAuthAccount_create db1 Google (g_sub user) (user_id newUser) of
                  Inl e \<Rightarrow> (Inl e, db1)
                | Inr (acc, db2) \<Rightarrow> (Inr (token_for jwt now (user_id newUser)), db2)))
      | Some findUser \<Rightarrow>
          (case find (\<lambda>account. oa_provider account = Google) (include_OAuthAccount db findUser) of
             None \<Rightarrow>
               (case oAuthAccount_create db Google (g_sub user) (user_id findUser) of
                  Inl e \<Rightarrow> (Inl e, db)
                | Inr (acc, db1) \<Rightarrow> (Inr (token_for jwt now (user_id findUser)), db1))
           | Some findAccount \<Rightarrow> (Inr (token_for jwt now (user_id findUser)), db)))"

section \<open>AuthGuard\<close>

text \<open>
  The request as the guard reads it: the headers (Node lower-cases their names), the
  cookies (absent when no cookie parser ran) and the \<open>user\<close> the guard attaches.
\<close>

record RequestUser =
  ru_id :: "jsval option"
  ru_role :: "jsval option"

record Request =
  headers :: "(string \<times> string) list"
  cookies :: "(string \<times> string) list option"
  req_user :: "RequestUser option"

text \<open>
  \<open>jwtService.verifyAsync(token)\<close> rejects a missing or empty token before it looks at
  a signature.
\<close>

definition jwt_verify :: "JwtService \<Rightarrow> nat \<Rightarrow> string option \<Rightarrow> payload option" where
  "jwt_verify jwt now token =
     (case token of None \<Rightarrow> None | Some t \<Rightarrow> if t = [] then None else verifyAsync jwt now t)"

text \<open>
  \<open>canActivate\<close>: the header it reads is spelled \<open>authoriztion\<close> in the source; the
  cookie is read outside the \<open>try\<close>, the verification inside it.
\<close>

definition canActivate ::
  "JwtService \<Rightarrow> nat \<Rightarrow> Request \<Rightarrow> exception + (bool \<times> Request)" where
  "canActivate jwt now request =
     (let token0 = (case map_of (headers request) ''authoriztion'' of
                      None \<Rightarrow> None
                    | Some h \<Rightarrow> js_index (js_split CHR '' '' h) 1) in
      case (if falsy token0
            then (case cookies request of
                    None \<Rightarrow> Inl (TypeError ''Cannot read properties of undefined'')
                  | Some cs \<Rightarrow> Inr (map_of cs ''token''))
            else Inr token0) of
        Inl e \<Rightarrow> Inl e
      | Inr token \<Rightarrow>
          (case jwt_verify jwt now token of
             None \<Rightarrow> Inl (ForbiddenException ''Token invalid'')
           | Some p \<Rightarrow>
               Inr (True, request \<lparr> req_user :=
                      Some \<lparr> ru_id = map_of p ''id'', ru_role = map_of p ''role'' \<rparr> \<rparr>)))"

section \<open>Well-formed stores and test doubles\<close>

text \<open>
  The store's referential integrity: every id in use is below the counter, and every
  OAuth account belongs to a user of the store (the foreign key of the migration).
\<close>

definition db_ok :: "Database \<Rightarrow> bool" where
  "db_ok db \<longleftrightarrow>
     list_all (\<lambda>u. user_id u < cuid_counter db) (user_table db) \<and>
     list_all (\<lambda>a. list_ex (\<lambda>u. user_id u = oa_userId a) (user_table db))
       (oAuthAccount_table db)"

text \<open>
  A JWT service given by a code book of (token, issue time, payload) entries: signing
  looks up the entry with the time of the call and the payload; verifying looks the
  token up, fails on a token that is not in the book or has expired, and returns the
  payload with \<open>iat\<close> and \<open>exp\<close> added, as the library does. It stands for the library at
  the concrete inputs below.
\<close>

definition codebook_jwt :: "(string \<times> nat \<times> payload) list \<Rightarrow> JwtService" where
  "codebook_jwt book =
     \<lparr> signAsync = (\<lambda>now p.
         case find (\<lambda>e. fst (snd e) = now \<and> snd (snd e) = p) book of
           None \<Rightarrow> [] | Some e \<Rightarrow> fst e),
       verifyAsync = (\<lambda>now t.
         case map_of book t of
           None \<Rightarrow> None
         | Some (iat, p) \<Rightarrow>
             if now < iat + expiresIn
             then Some (p @ [(''iat'', JNum iat), (''exp'', JNum (iat + expiresIn))])
             else None) \<rparr>"

text \<open>A bcrypt double: the hash is the plaintext behind a marker.\<close>

definition marker_bcrypt :: Bcrypt where
  "marker_bcrypt =
     \<lparr> bcrypt_hash = (\<lambda>p rounds. ''$2b$'' @ p),
       bcrypt_compare = (\<lambda>p h. h = ''$2b$'' @ p) \<rparr>"


section \<open>Refresh-token rotation\<close>

text \<open>
  Modelled from the spec: the errors of the Token Issuer. \<open>AuthService\<close> and
  \<open>AuthController\<close> have no refresh operation, and nothing in the sources writes the
  \<open>refresh_token\<close> table, so this section is written down from the description of the
  Token Issuer. \<open>InvalidToken\<close> is its error for an absent or expired token; a rejection by
  the storage layer surfaces as a generic server error.
\<close>

datatype token_error = InvalidToken | ServerError

text \<open>Modelled from the spec: the recommended lifetime of a refresh token, seven days.\<close>

definition refresh_ttl :: nat where
  "refresh_ttl = 7 * 24 * 60 * 60"

text \<open>
  Modelled from the spec: the length of the longest refresh token that the store holds,
  used to draw a token that is not in use.
\<close>

definition longest_token :: "Database \<Rightarrow> nat" where
  "longest_token db = foldr max (map (\<lambda>r. length (rt_token r)) (refreshToken_table db)) 0"

text \<open>
  Modelled from the spec: the cryptographically random opaque string of a new refresh
  token, which is missing from the sources. \<open>entropy\<close> is the random part drawn by the
  call. As in the symbolic model of cryptography, a draw never repeats a string that is
  in use: the token is made longer than every token that the store holds.
\<close>

definition opaque_token :: "string \<Rightarrow> Database \<Rightarrow> string" where
  "opaque_token entropy db = entropy @ replicate (Suc (longest_token db)) CHR ''=''"

text \<open>
  Modelled from the spec: \<open>rotateRefreshToken\<close>, which is missing from the sources. It
  looks the RefreshToken up by value; it fails with \<open>InvalidToken\<close> if the row is absent
  or expired, and an expired token that is presented again is deleted; on success it
  deletes the old row and issues a new pair, in one step, so that no store with only one
  of the two changes exists. The unique index on the token value rejects a new row
  whose token is in the table. \<open>now\<close> is the time of the call, and \<open>access\<close> is the access
  token the issuer signs at that time for the owner of a row.
\<close>

definition rotateRefreshToken ::
  "(nat \<Rightarrow> RefreshToken \<Rightarrow> string) \<Rightarrow> string \<Rightarrow> nat \<Rightarrow> Database \<Rightarrow> string
     \<Rightarrow> (token_error + string \<times> string) \<times> Database" where
  "rotateRefreshToken access entropy now db oldToken =
     (case find (\<lambda>r. rt_token r = oldToken) (refreshToken_table db) of
        None \<Rightarrow> (Inl InvalidToken, db)
      | Some r \<Rightarrow>
          let others = filter (\<lambda>x. rt_token x \<noteq> oldToken) (refreshToken_table db) in
          if rt_expiresAt r \<le> now
          then (Inl InvalidToken, db \<lparr> refreshToken_table := others \<rparr>)
          else
            let new = \<lparr> rt_id = cuid_counter db, rt_token = opaque_token entropy db,
                        rt_userId = rt_userId r, rt_expiresAt = now + refresh_ttl \<rparr>
            in if find (\<lambda>x. rt_token x = rt_token new) others \<noteq> None
               then (Inl ServerError, db)
               else (Inr (access now r, rt_token new),
                     db \<lparr> refreshToken_table := others @ [new],
                          cuid_counter := Suc (cuid_counter db) \<rparr>))"

section \<open>Concrete stores and requests\<close>

definition empty_db :: Database where
  "empty_db = \<lparr> user_table = [], oAuthAccount_table = [], refreshToken_table = [],
                cuid_counter = 0 \<rparr>"




text \<open>
  A store with three users. Bob registered with a password and is an administrator.
  Carol signed in with Google (subject \<open>g-carol\<close>), has no password and is deactivated.
  Trent registered with a password and has two-factor authentication switched on.
\<close>

definition bob :: User where
  "bob = \<lparr> user_id = 0, user_email = ''bob@example.com'',
           user_password = Some ''$2b$hunter2'', user_firstName = Some ''Bob'',
           user_lastName = None, user_username = ''bob'', user_role = ADMIN,
           user_isEmailVerified = False, user_isTwoFA = False, user_isActive = True \<rparr>"

definition carol :: User where
  "carol = \<lparr> user_id = 1, user_email = ''carol@example.com'', user_password = None,
             user_firstName = Some ''Carol'', user_lastName = None,
             user_username = ''carol'', user_role = CUSTOMER,
             user_isEmailVerified = False, user_isTwoFA = False, user_isActive = False \<rparr>"

definition carol_google :: OAuthAccount where
  "carol_google = \<lparr> oa_id = 2, oa_userId = 1, oa_provider = Google,
                    oa_providerId = ''g-carol'' \<rparr>"

definition trent :: User where
  "trent = \<lparr> user_id = 3, user_email = ''trent@example.com'',
             user_password = Some ''$2b$s3cret'', user_firstName = Some ''Trent'',
             user_lastName = None, user_username = ''trent'', user_role = CUSTOMER,
             user_isEmailVerified = False, user_isTwoFA = True, user_isActive = True \<rparr>"

definition shop_db :: Database where
  "shop_db = \<lparr> user_table = [bob, carol, trent], oAuthAccount_table = [carol_google],
               refreshToken_table = [], cuid_counter = 4 \<rparr>"

definition google_user :: "string \<Rightarrow> string \<Rightarrow> GoogleUser" where
  "google_user e s = \<lparr> g_email = e, g_firstName = None, g_lastName = None,
                       g_username = None, g_sub = s \<rparr>"

text \<open>Tokens issued at the times 100 and 200.\<close>

definition demo_jwt :: JwtService where
  "demo_jwt = codebook_jwt
     [(''jwt-0-at-100'', 100, [(''userId'', JCuid 0)]),
      (''jwt-0-at-200'', 200, [(''userId'', JCuid 0)]),
      (''jwt-1-at-100'', 100, [(''userId'', JCuid 1)]),
      (''jwt-2-at-100'', 100, [(''userId'', JCuid 2)]),
      (''jwt-3-at-100'', 100, [(''userId'', JCuid 3)]),
      (''jwt-4-at-100'', 100, [(''userId'', JCuid 4)]),
      (''jwt-4-at-200'', 200, [(''userId'', JCuid 4)])]"

definition bearer_request :: Request where
  "bearer_request = \<lparr> headers = [(''authorization'', ''Bearer jwt-0-at-100'')], cookies = Some [],
                      req_user = None \<rparr>"

definition cookie_request :: "string \<Rightarrow> Request" where
  "cookie_request t = \<lparr> headers = [], cookies = Some [(''token'', t)], req_user = None \<rparr>"

definition rowA :: RefreshToken where
  "rowA = \<lparr> rt_id = 1, rt_token = ''rt-A'', rt_userId = 0, rt_expiresAt = 1000 \<rparr>"

definition session_db :: Database where
  "session_db = \<lparr> user_table = [bob], oAuthAccount_table = [],
                  refreshToken_table = [rowA],
                  cuid_counter = 2 \<rparr>"

definition demo_access :: "nat \<Rightarrow> RefreshToken \<Rightarrow> string" where
  "demo_access now r = signAsync demo_jwt now [(''userId'', JCuid (rt_userId r))]"

section \<open>Registration and password login\<close>





lemma login_unknown:
  "user_findFirst db e = None \<Longrightarrow>
   login bc jwt now db e p = (Inl (BadRequestException ''User not found!''), db)"
  by (simp add: login_def)

lemma login_no_password:
  "user_findFirst db e = Some u \<Longrightarrow> user_password u = None \<or> user_password u = Some [] \<Longrightarrow>
   login bc jwt now db e p = (Inl (BadRequestException ''password no set''), db)"
  by (auto simp add: login_def)

lemma login_mismatch:
  "user_findFirst db e = Some u \<Longrightarrow> user_password u = Some h \<Longrightarrow> h \<noteq> [] \<Longrightarrow>
   \<not> bcrypt_compare bc p h \<Longrightarrow>
   login bc jwt now db e p = (Inl (BadRequestException ''Email or Password incorrect''), db)"
  by (simp add: login_def)

lemma login_success:
  "user_findFirst db e = Some u \<Longrightarrow> user_password u = Some h \<Longrightarrow> h \<noteq> [] \<Longrightarrow>
   bcrypt_compare bc p h \<Longrightarrow>
   login bc jwt now db e p = (Inr (token_for jwt now (user_id u)), db)"
  by (simp add: login_def token_for_def)

lemma login_failure_status:
  "fst (login bc jwt now db e p) = Inl ex \<Longrightarrow> getStatus ex = 400"
  by (auto simp add: login_def split: option.splits if_splits)




text \<open>
  C2 (as amended). \<open>login\<close> throws \<open>BadRequestException\<close> in each of its three failures:
  with the message \<open>User not found!\<close> when no User has the email, \<open>password no set\<close> when
  the stored password is absent or empty, and \<open>Email or Password incorrect\<close> when the
  password does not match. The three differ by message only: every failure of \<open>login\<close>
  has status 400, and the store is unchanged.
\<close>

theorem login_failures_share_bad_request:
  "(user_findFirst db e = None \<longrightarrow>
      login bc jwt now db e p = (Inl (BadRequestException ''User not found!''), db)) \<and>
   (\<forall>u. user_findFirst db e = Some u \<and> (user_password u = None \<or> user_password u = Some []) \<longrightarrow>
      login bc jwt now db e p = (Inl (BadRequestException ''password no set''), db)) \<and>
   (\<forall>u h. user_findFirst db e = Some u \<and> user_password u = Some h \<and> h \<noteq> [] \<and>
        \<not> bcrypt_compare bc p h \<longrightarrow>
      login bc jwt now db e p = (Inl (BadRequestException ''Email or Password incorrect''), db)) \<and>
   (\<forall>ex. fst (login bc jwt now db e p) = Inl ex \<longrightarrow> getStatus ex = 400)"
  using login_unknown [of db e bc jwt now p] login_no_password [of db e _ bc jwt now p]
    login_mismatch [of db e _ _ bc p jwt now] login_failure_status [of bc jwt now db e p]
  by blast

text \<open>An unknown email, Carol (who has no password) and a wrong password for Bob.\<close>

theorem login_failures_share_bad_request_witness:
  "user_findFirst shop_db ''nobody@example.com'' = None \<and>
   login marker_bcrypt demo_jwt 100 shop_db ''nobody@example.com'' ''pw''
     = (Inl (BadRequestException ''User not found!''), shop_db) \<and>
   user_findFirst shop_db ''carol@example.com'' = Some carol \<and> user_password carol = None \<and>
   login marker_bcrypt demo_jwt 100 shop_db ''carol@example.com'' ''pw''
     = (Inl (BadRequestException ''password no set''), shop_db) \<and>
   user_findFirst shop_db ''bob@example.com'' = Some bob \<and>
   user_password bob = Some ''$2b$hunter2'' \<and>
   \<not> bcrypt_compare marker_bcrypt ''wrong'' ''$2b$hunter2'' \<and>
   login marker_bcrypt demo_jwt 100 shop_db ''bob@example.com'' ''wrong''
     = (Inl (BadRequestException ''Email or Password incorrect''), shop_db) \<and>
   getStatus (BadRequestException ''Email or Password incorrect'') = 400"
proof -
  have nobody: "user_findFirst shop_db ''nobody@example.com'' = None"
    by (simp add: user_findFirst_def shop_db_def bob_def carol_def trent_def)
  have c: "user_findFirst shop_db ''carol@example.com'' = Some carol"
    by (simp add: user_findFirst_def shop_db_def bob_def carol_def trent_def)
  have cp: "user_password carol = None"
    by (simp add: carol_def)
  have b: "user_findFirst shop_db ''bob@example.com'' = Some bob"
    by (simp add: user_findFirst_def shop_db_def bob_def)
  have bp: "user_password bob = Some ''$2b$hunter2''"
    by (simp add: bob_def)
  have wrong: "\<not> bcrypt_compare marker_bcrypt ''wrong'' ''$2b$hunter2''"
    by (simp add: marker_bcrypt_def)
  have l1: "login marker_bcrypt demo_jwt 100 shop_db ''nobody@example.com'' ''pw''
      = (Inl (BadRequestException ''User not found!''), shop_db)"
    using login_failures_share_bad_request
      [of shop_db "''nobody@example.com''" marker_bcrypt demo_jwt 100 "''pw''"] nobody
    by blast
  have l2: "login marker_bcrypt demo_jwt 100 shop_db ''carol@example.com'' ''pw''
      = (Inl (BadRequestException ''password no set''), shop_db)"
    using login_failures_share_bad_request
      [of shop_db "''carol@example.com''" marker_bcrypt demo_jwt 100 "''pw''"] c cp
    by blast
  have l3: "login marker_bcrypt demo_jwt 100 shop_db ''bob@example.com'' ''wrong''
      = (Inl (BadRequestException ''Email or Password incorrect''), shop_db)"
    using login_failures_share_bad_request
      [of shop_db "''bob@example.com''" marker_bcrypt demo_jwt 100 "''wrong''"] b bp wrong
    by blast
  have st: "getStatus (BadRequestException ''Email or Password incorrect'') = 400"
    using login_failures_share_bad_request
      [of shop_db "''bob@example.com''" marker_bcrypt demo_jwt 100 "''wrong''"] l3
    by simp
  show ?thesis
    using nobody c cp b bp wrong l1 l2 l3 st by blast
qed

text \<open>
  C2 as stated asks for distinct statuses. An unknown email and a wrong password are
  both answered with the status of \<open>BadRequestException\<close>.
\<close>

theorem login_distinct_status_counterexample:
  "fst (login marker_bcrypt demo_jwt 100 shop_db ''nobody@example.com'' ''pw'')
     = Inl (BadRequestException ''User not found!'') \<and>
   fst (login marker_bcrypt demo_jwt 100 shop_db ''bob@example.com'' ''wrong'')
     = Inl (BadRequestException ''Email or Password incorrect'') \<and>
   getStatus (BadRequestException ''User not found!'')
     = getStatus (BadRequestException ''Email or Password incorrect'')"
  by (simp add: login_def user_findFirst_def shop_db_def bob_def carol_def trent_def marker_bcrypt_def)

text \<open>
  C5 (as amended). For every User whose two-factor flag is enabled, \<open>login\<close> with the
  correct email and password returns \<open>{ token }\<close> directly, as for any other user:
  \<open>login\<close> does not read the flag.
\<close>

theorem login_ignores_two_factor:
  assumes "user_findFirst db e = Some u" and "user_isTwoFA u"
    and "user_password u = Some h" and "h \<noteq> []"
    and "bcrypt_compare bc p h"
  shows "login bc jwt now db e p =
           (Inr (JObject [(''token'', JString (signAsync jwt now [(''userId'', JCuid (user_id u))]))]),
            db)"
  using login_success [OF assms(1) assms(3-5), of jwt now] by (simp add: token_for_def)

text \<open>Trent has the flag enabled and logs in with his password.\<close>

theorem login_ignores_two_factor_witness:
  "user_findFirst shop_db ''trent@example.com'' = Some trent \<and> user_isTwoFA trent \<and>
   user_password trent = Some ''$2b$s3cret'' \<and>
   bcrypt_compare marker_bcrypt ''s3cret'' ''$2b$s3cret'' \<and>
   login marker_bcrypt demo_jwt 100 shop_db ''trent@example.com'' ''s3cret''
     = (Inr (JObject [(''token'', JString ''jwt-3-at-100'')]), shop_db)"
proof -
  have t: "user_findFirst shop_db ''trent@example.com'' = Some trent"
    by (simp add: user_findFirst_def shop_db_def bob_def carol_def trent_def)
  have fa: "user_isTwoFA trent"
    by (simp add: trent_def)
  have tp: "user_password trent = Some ''$2b$s3cret''"
    by (simp add: trent_def)
  have ne: "''$2b$s3cret'' \<noteq> []"
    by simp
  have ok: "bcrypt_compare marker_bcrypt ''s3cret'' ''$2b$s3cret''"
    by (simp add: marker_bcrypt_def)
  have tok: "signAsync demo_jwt 100 [(''userId'', JCuid (user_id trent))] = ''jwt-3-at-100''"
    by (simp add: demo_jwt_def codebook_jwt_def trent_def)
  show ?thesis
    using login_ignores_two_factor [OF t fa tp ne ok, of demo_jwt 100] t fa tp ok tok by simp
qed

text \<open>
  C5 as stated says that no token is returned to a user with the flag enabled. Trent
  receives one.
\<close>

theorem login_two_factor_counterexample:
  "user_findFirst shop_db ''trent@example.com'' = Some trent \<and> user_isTwoFA trent \<and>
   bcrypt_compare marker_bcrypt ''s3cret'' ''$2b$s3cret'' \<and>
   fst (login marker_bcrypt demo_jwt 100 shop_db ''trent@example.com'' ''s3cret'')
     = Inr (JObject [(''token'', JString ''jwt-3-at-100'')])"
  by (simp add: login_def user_findFirst_def shop_db_def bob_def carol_def trent_def
      marker_bcrypt_def demo_jwt_def codebook_jwt_def)

section \<open>The Google callback\<close>

text \<open>Facts about \<open>find\<close>, and the branches of the callback, one lemma each.\<close>

lemma find_filter_conj:
  "find P (filter Q xs) = find (\<lambda>x. Q x \<and> P x) xs"
  by (induction xs) auto

lemma find_append_None:
  "find P xs = None \<Longrightarrow> find P (xs @ ys) = find P ys"
  by (induction xs) (auto split: if_splits)

lemma find_None_filter_Nil:
  "find P xs = None \<Longrightarrow> filter P xs = []"
  by (induction xs) (auto split: if_splits)

lemma find_distinct_filter:
  "distinct (map f xs) \<Longrightarrow> find (\<lambda>x. f x = e) xs = Some u \<Longrightarrow>
   filter (\<lambda>x. f x = e) xs = [u]"
proof (induction xs)
  case Nil
  then show ?case by simp
next
  case (Cons x xs)
  show ?case
  proof (cases "f x = e")
    case True
    then have "\<forall>y \<in> set xs. f y \<noteq> e"
      using Cons.prems(1) by (auto simp add: image_iff)
    then have "filter (\<lambda>x. f x = e) xs = []"
      by (simp add: filter_empty_conv)
    then show ?thesis
      using True Cons.prems(2) by simp
  next
    case False
    then show ?thesis
      using Cons by simp
  qed
qed

lemma oauth_linked:
  "user_findFirst db (g_email g) = Some u \<Longrightarrow>
   find (\<lambda>a. oa_provider a = Google) (include_OAuthAccount db u) = Some a \<Longrightarrow>
   OAuthGoogleCallback jwt now db g = (Inr (token_for jwt now (user_id u)), db)"
  by (simp add: OAuthGoogleCallback_def)

lemma oauth_link:
  assumes "user_findFirst db (g_email g) = Some u"
    and "find (\<lambda>a. oa_provider a = Google) (include_OAuthAccount db u) = None"
    and "find (\<lambda>a. oa_provider a = Google \<and> oa_providerId a = g_sub g) (oAuthAccount_table db) = None"
  shows "OAuthGoogleCallback jwt now db g =
    (Inr (token_for jwt now (user_id u)),
     db \<lparr> oAuthAccount_table := oAuthAccount_table db @
             [\<lparr> oa_id = cuid_counter db, oa_userId = user_id u, oa_provider = Google,
                oa_providerId = g_sub g \<rparr>],
           cuid_counter := Suc (cuid_counter db) \<rparr>)"
proof -
  have "find (\<lambda>a. oa_userId a = user_id u \<and> oa_provider a = Google) (oAuthAccount_table db) = None"
    using assms(2) by (simp add: include_OAuthAccount_def find_filter_conj)
  then show ?thesis
    using assms by (simp add: OAuthGoogleCallback_def oAuthAccount_create_def Let_def)
qed

lemma oauth_link_rejected:
  assumes "user_findFirst db (g_email g) = Some u"
    and "find (\<lambda>a. oa_provider a = Google) (include_OAuthAccount db u) = None"
    and "find (\<lambda>a. oa_provider a = Google \<and> oa_providerId a = g_sub g) (oAuthAccount_table db) \<noteq> None"
  shows "OAuthGoogleCallback jwt now db g =
    (Inl (PrismaUniqueConstraintError [''provider'', ''providerId'']), db)"
  using assms by (simp add: OAuthGoogleCallback_def oAuthAccount_create_def)

lemma db_ok_no_account_of_fresh_id:
  assumes "db_ok db"
  shows "find (\<lambda>a. oa_userId a = cuid_counter db \<and> P a) (oAuthAccount_table db) = None"
proof -
  have "\<forall>a \<in> set (oAuthAccount_table db). oa_userId a \<noteq> cuid_counter db"
    using assms by (fastforce simp add: db_ok_def list_all_iff list_ex_iff)
  then show ?thesis
    by (auto simp add: find_None_iff)
qed

lemma oauth_new:
  assumes "db_ok db" and "user_findFirst db (g_email g) = None"
    and "find (\<lambda>a. oa_provider a = Google \<and> oa_providerId a = g_sub g) (oAuthAccount_table db) = None"
  shows "OAuthGoogleCallback jwt now db g =
    (Inr (token_for jwt now (cuid_counter db)),
     db \<lparr> user_table := user_table db @
             [\<lparr> user_id = cuid_counter db, user_email = g_email g, user_password = None,
                user_firstName = g_firstName g, user_lastName = g_lastName g,
                user_username = username_or_local_part g, user_role = CUSTOMER,
                user_isEmailVerified = False, user_isTwoFA = False, user_isActive = True \<rparr>],
           oAuthAccount_table := oAuthAccount_table db @
             [\<lparr> oa_id = Suc (cuid_counter db), oa_userId = cuid_counter db,
                oa_provider = Google, oa_providerId = g_sub g \<rparr>],
           cuid_counter := Suc (Suc (cuid_counter db)) \<rparr>)"
  using assms(2,3) db_ok_no_account_of_fresh_id [OF assms(1), of "\<lambda>a. oa_provider a = Google"]
  by (simp add: OAuthGoogleCallback_def user_create_def oAuthAccount_create_def
      user_findFirst_def no_extra_def Let_def)

lemma oauth_new_rejected:
  assumes "user_findFirst db (g_email g) = None"
    and "find (\<lambda>a. oa_provider a = Google \<and> oa_providerId a = g_sub g) (oAuthAccount_table db) \<noteq> None"
  shows "OAuthGoogleCallback jwt now db g =
    (Inl (PrismaUniqueConstraintError [''provider'', ''providerId'']),
     db \<lparr> user_table := user_table db @
             [\<lparr> user_id = cuid_counter db, user_email = g_email g, user_password = None,
                user_firstName = g_firstName g, user_lastName = g_lastName g,
                user_username = username_or_local_part g, user_role = CUSTOMER,
                user_isEmailVerified = False, user_isTwoFA = False, user_isActive = True \<rparr>],
           cuid_counter := Suc (cuid_counter db) \<rparr>)"
  using assms
  by (simp add: OAuthGoogleCallback_def user_create_def oAuthAccount_create_def
      user_findFirst_def no_extra_def Let_def)

text \<open>Well-formedness is kept by every operation.\<close>

lemma db_ok_register: "db_ok db \<Longrightarrow> db_ok (snd (register bc jwt now db d))"
  by (auto simp add: register_def user_create_def Let_def db_ok_def list_all_iff list_ex_iff
      less_Suc_eq_le max_def split: option.splits)

lemma db_ok_login: "db_ok db \<Longrightarrow> db_ok (snd (login bc jwt now db e p))"
  by (simp add: login_def split: option.splits)

lemma find_Some_mem: "find P xs = Some x \<Longrightarrow> x \<in> set xs"
  by (induction xs) (auto split: if_splits)

lemma db_ok_oauth: "db_ok db \<Longrightarrow> db_ok (snd (OAuthGoogleCallback jwt now db g))"
  by (auto simp add: OAuthGoogleCallback_def user_create_def oAuthAccount_create_def Let_def
      user_findFirst_def no_extra_def db_ok_def list_all_iff list_ex_iff
      split: option.splits intro: less_SucI dest: find_Some_mem)

text \<open>
  In a well-formed store a second callback with the same input writes nothing, and it
  returns what the first callback returns when it is made at that time.
\<close>

lemma oauth_twice:
  assumes ok: "db_ok db"
  shows "OAuthGoogleCallback jwt t2 (snd (OAuthGoogleCallback jwt t1 db g)) g =
         (fst (OAuthGoogleCallback jwt t2 db g), snd (OAuthGoogleCallback jwt t1 db g))"
proof (cases "user_findFirst db (g_email g)")
  case None
  define nu where "nu = \<lparr> user_id = cuid_counter db, user_email = g_email g,
      user_password = None, user_firstName = g_firstName g, user_lastName = g_lastName g,
      user_username = username_or_local_part g, user_role = CUSTOMER,
      user_isEmailVerified = False, user_isTwoFA = False, user_isActive = True \<rparr>"
  have fresh: "filter (\<lambda>a. oa_userId a = cuid_counter db) (oAuthAccount_table db) = []"
    using db_ok_no_account_of_fresh_id [OF ok, of "\<lambda>a. True"]
    by (simp add: find_None_filter_Nil)
  show ?thesis
  proof (cases "find (\<lambda>a. oa_provider a = Google \<and> oa_providerId a = g_sub g)
      (oAuthAccount_table db)")
    case free: None
    define acc where "acc = \<lparr> oa_id = Suc (cuid_counter db), oa_userId = cuid_counter db,
        oa_provider = Google, oa_providerId = g_sub g \<rparr>"
    define db2 where "db2 = db \<lparr> user_table := user_table db @ [nu],
        oAuthAccount_table := oAuthAccount_table db @ [acc],
        cuid_counter := Suc (Suc (cuid_counter db)) \<rparr>"
    have first: "OAuthGoogleCallback jwt t db g = (Inr (token_for jwt t (cuid_counter db)), db2)"
      for t
      using oauth_new [OF ok None free, of jwt t] by (simp add: db2_def nu_def acc_def)
    have found: "user_findFirst db2 (g_email g) = Some nu"
      using None by (simp add: user_findFirst_def db2_def find_append_None nu_def)
    have "include_OAuthAccount db2 nu = [acc]"
      using fresh by (simp add: include_OAuthAccount_def db2_def nu_def acc_def)
    then have linked: "find (\<lambda>a. oa_provider a = Google) (include_OAuthAccount db2 nu) = Some acc"
      by (simp add: acc_def)
    have "OAuthGoogleCallback jwt t2 db2 g = (Inr (token_for jwt t2 (user_id nu)), db2)"
      using oauth_linked [OF found linked] .
    then show ?thesis
      by (simp add: first nu_def)
  next
    case taken: (Some b)
    define db1 where "db1 = db \<lparr> user_table := user_table db @ [nu],
        cuid_counter := Suc (cuid_counter db) \<rparr>"
    have first: "OAuthGoogleCallback jwt t db g =
        (Inl (PrismaUniqueConstraintError [''provider'', ''providerId'']), db1)" for t
      using oauth_new_rejected [OF None, of jwt t] taken by (simp add: db1_def nu_def)
    have found: "user_findFirst db1 (g_email g) = Some nu"
      using None by (simp add: user_findFirst_def db1_def find_append_None nu_def)
    have "include_OAuthAccount db1 nu = []"
      using fresh by (simp add: include_OAuthAccount_def db1_def nu_def)
    then have unlinked: "find (\<lambda>a. oa_provider a = Google) (include_OAuthAccount db1 nu) = None"
      by simp
    have still: "find (\<lambda>a. oa_provider a = Google \<and> oa_providerId a = g_sub g)
        (oAuthAccount_table db1) \<noteq> None"
      using taken by (simp add: db1_def)
    have "OAuthGoogleCallback jwt t2 db1 g =
        (Inl (PrismaUniqueConstraintError [''provider'', ''providerId'']), db1)"
      using oauth_link_rejected [OF found unlinked still] .
    then show ?thesis
      by (simp add: first)
  qed
next
  case (Some u)
  show ?thesis
  proof (cases "find (\<lambda>a. oa_provider a = Google) (include_OAuthAccount db u)")
    case linked: (Some a)
    have "OAuthGoogleCallback jwt t db g = (Inr (token_for jwt t (user_id u)), db)" for t
      using oauth_linked [OF Some linked] .
    then show ?thesis
      by simp
  next
    case unlinked: None
    show ?thesis
    proof (cases "find (\<lambda>a. oa_provider a = Google \<and> oa_providerId a = g_sub g)
        (oAuthAccount_table db)")
      case taken: (Some b)
      have "OAuthGoogleCallback jwt t db g =
          (Inl (PrismaUniqueConstraintError [''provider'', ''providerId'']), db)" for t
        using oauth_link_rejected [OF Some unlinked, of jwt t] taken by simp
      then show ?thesis
        by simp
    next
      case free: None
      define acc where "acc = \<lparr> oa_id = cuid_counter db, oa_userId = user_id u,
          oa_provider = Google, oa_providerId = g_sub g \<rparr>"
      define db1 where "db1 = db \<lparr> oAuthAccount_table := oAuthAccount_table db @ [acc],
          cuid_counter := Suc (cuid_counter db) \<rparr>"
      have first: "OAuthGoogleCallback jwt t db g = (Inr (token_for jwt t (user_id u)), db1)"
        for t
        using oauth_link [OF Some unlinked free, of jwt t] by (simp add: db1_def acc_def)
      have found1: "user_findFirst db1 (g_email g) = Some u"
        using Some by (simp add: user_findFirst_def db1_def)
      have "include_OAuthAccount db1 u = include_OAuthAccount db u @ [acc]"
        by (simp add: include_OAuthAccount_def db1_def acc_def)
      then have "find (\<lambda>a. oa_provider a = Google) (include_OAuthAccount db1 u) = Some acc"
        using unlinked by (simp add: find_append_None acc_def)
      then have "OAuthGoogleCallback jwt t2 db1 g = (Inr (token_for jwt t2 (user_id u)), db1)"
        using oauth_linked [OF found1] by blast
      then show ?thesis
        by (simp add: first)
    qed
  qed
qed

text \<open>The concrete store.\<close>

lemma empty_db_ok: "db_ok empty_db"
  by (simp add: db_ok_def empty_db_def)

lemma shop_bob: "user_findFirst shop_db ''bob@example.com'' = Some bob"
  by (simp add: user_findFirst_def shop_db_def bob_def)

lemma shop_carol: "user_findFirst shop_db ''carol@example.com'' = Some carol"
  by (simp add: user_findFirst_def shop_db_def bob_def carol_def)

lemma shop_bob_accounts: "include_OAuthAccount shop_db bob = []"
  by (simp add: include_OAuthAccount_def shop_db_def bob_def carol_google_def)

lemma shop_carol_accounts: "include_OAuthAccount shop_db carol = [carol_google]"
  by (simp add: include_OAuthAccount_def shop_db_def carol_def carol_google_def)

lemma shop_emails: "distinct (map user_email (user_table shop_db))"
  by (simp add: shop_db_def bob_def carol_def trent_def)

lemma shop_db_ok: "db_ok shop_db"
  by (simp add: db_ok_def shop_db_def bob_def carol_def trent_def carol_google_def)

lemma shop_no_dave: "user_findFirst shop_db ''dave@example.com'' = None"
  by (simp add: user_findFirst_def shop_db_def bob_def carol_def trent_def)

lemma shop_no_erin: "user_findFirst shop_db ''erin@example.com'' = None"
  by (simp add: user_findFirst_def shop_db_def bob_def carol_def trent_def)

lemma local_part_dave: "username_or_local_part (google_user ''dave@example.com'' s) = ''dave''"
  by (simp add: username_or_local_part_def google_user_def)

lemma local_part_erin: "username_or_local_part (google_user ''erin@example.com'' s) = ''erin''"
  by (simp add: username_or_local_part_def google_user_def)

text \<open>
  C3 (as amended). Let a User with the asserted email exist. If the User has no Google
  account and the subject id is not yet linked to any account, the callback adds exactly
  one OAuthAccount row, owned by that User, and returns a token signed for that User; a
  second callback with the same subject id and email, made at any time, writes nothing
  and again returns a token signed for that User; the users are as before, so that a
  store with unique emails holds exactly one User of that email, and the User has
  exactly one Google account. If the User has no Google account and the subject id is
  linked already, the unique index rejects the row: the callback throws and writes
  nothing. If the User already has a Google account, the callback writes nothing and
  returns a token signed for that User.
\<close>

theorem oauth_link_existing_user_idempotent:
  "(\<forall>u. user_findFirst db (g_email g) = Some u \<and>
        find (\<lambda>a. oa_provider a = Google) (include_OAuthAccount db u) = None \<and>
        find (\<lambda>a. oa_provider a = Google \<and> oa_providerId a = g_sub g) (oAuthAccount_table db)
          = None \<longrightarrow>
        OAuthGoogleCallback jwt t1 db g =
          (Inr (token_for jwt t1 (user_id u)),
           db \<lparr> oAuthAccount_table := oAuthAccount_table db @
                   [\<lparr> oa_id = cuid_counter db, oa_userId = user_id u, oa_provider = Google,
                      oa_providerId = g_sub g \<rparr>],
                 cuid_counter := Suc (cuid_counter db) \<rparr>) \<and>
        OAuthGoogleCallback jwt t2 (snd (OAuthGoogleCallback jwt t1 db g)) g =
          (Inr (token_for jwt t2 (user_id u)), snd (OAuthGoogleCallback jwt t1 db g)) \<and>
        user_table (snd (OAuthGoogleCallback jwt t1 db g)) = user_table db \<and>
        (distinct (map user_email (user_table db)) \<longrightarrow>
           filter (\<lambda>x. user_email x = g_email g)
               (user_table (snd (OAuthGoogleCallback jwt t1 db g))) = [u]) \<and>
        filter (\<lambda>a. oa_provider a = Google)
            (include_OAuthAccount (snd (OAuthGoogleCallback jwt t1 db g)) u) =
          [\<lparr> oa_id = cuid_counter db, oa_userId = user_id u, oa_provider = Google,
             oa_providerId = g_sub g \<rparr>]) \<and>
   (\<forall>u. user_findFirst db (g_email g) = Some u \<and>
        find (\<lambda>a. oa_provider a = Google) (include_OAuthAccount db u) = None \<and>
        find (\<lambda>a. oa_provider a = Google \<and> oa_providerId a = g_sub g) (oAuthAccount_table db)
          \<noteq> None \<longrightarrow>
        OAuthGoogleCallback jwt t1 db g =
          (Inl (PrismaUniqueConstraintError [''provider'', ''providerId'']), db)) \<and>
   (\<forall>u. user_findFirst db (g_email g) = Some u \<and>
        find (\<lambda>a. oa_provider a = Google) (include_OAuthAccount db u) \<noteq> None \<longrightarrow>
        OAuthGoogleCallback jwt t1 db g = (Inr (token_for jwt t1 (user_id u)), db))"
proof (intro conjI allI impI)
  fix u
  assume "user_findFirst db (g_email g) = Some u \<and>
      find (\<lambda>a. oa_provider a = Google) (include_OAuthAccount db u) \<noteq> None"
  then show "OAuthGoogleCallback jwt t1 db g = (Inr (token_for jwt t1 (user_id u)), db)"
    using oauth_linked [of db g u] by auto
next
  fix u
  assume "user_findFirst db (g_email g) = Some u \<and>
      find (\<lambda>a. oa_provider a = Google) (include_OAuthAccount db u) = None \<and>
      find (\<lambda>a. oa_provider a = Google \<and> oa_providerId a = g_sub g) (oAuthAccount_table db)
        \<noteq> None"
  then show "OAuthGoogleCallback jwt t1 db g =
      (Inl (PrismaUniqueConstraintError [''provider'', ''providerId'']), db)"
    using oauth_link_rejected [of db g u jwt t1] by blast
next
  fix u
  assume h: "user_findFirst db (g_email g) = Some u \<and>
      find (\<lambda>a. oa_provider a = Google) (include_OAuthAccount db u) = None \<and>
      find (\<lambda>a. oa_provider a = Google \<and> oa_providerId a = g_sub g) (oAuthAccount_table db) = None"
  then have found: "user_findFirst db (g_email g) = Some u"
    by simp
  define acc where "acc = \<lparr> oa_id = cuid_counter db, oa_userId = user_id u,
      oa_provider = Google, oa_providerId = g_sub g \<rparr>"
  define db1 where "db1 = db \<lparr> oAuthAccount_table := oAuthAccount_table db @ [acc],
      cuid_counter := Suc (cuid_counter db) \<rparr>"
  have first: "OAuthGoogleCallback jwt t1 db g = (Inr (token_for jwt t1 (user_id u)), db1)"
    using oauth_link [OF found] h by (simp add: db1_def acc_def)
  have found1: "user_findFirst db1 (g_email g) = Some u"
    using found by (simp add: user_findFirst_def db1_def)
  have incl: "include_OAuthAccount db1 u = include_OAuthAccount db u @ [acc]"
    by (simp add: include_OAuthAccount_def db1_def acc_def)
  have linked: "find (\<lambda>a. oa_provider a = Google) (include_OAuthAccount db1 u) = Some acc"
    using h by (simp add: incl find_append_None acc_def)
  have second: "OAuthGoogleCallback jwt t2 db1 g = (Inr (token_for jwt t2 (user_id u)), db1)"
    using oauth_linked [OF found1 linked] .
  have only: "filter (\<lambda>a. oa_provider a = Google) (include_OAuthAccount db1 u) = [acc]"
    using h by (simp add: incl find_None_filter_Nil acc_def)
  show "OAuthGoogleCallback jwt t1 db g =
          (Inr (token_for jwt t1 (user_id u)),
           db \<lparr> oAuthAccount_table := oAuthAccount_table db @
                   [\<lparr> oa_id = cuid_counter db, oa_userId = user_id u, oa_provider = Google,
                      oa_providerId = g_sub g \<rparr>],
                 cuid_counter := Suc (cuid_counter db) \<rparr>)"
    using first by (simp add: db1_def acc_def)
  show "OAuthGoogleCallback jwt t2 (snd (OAuthGoogleCallback jwt t1 db g)) g =
          (Inr (token_for jwt t2 (user_id u)), snd (OAuthGoogleCallback jwt t1 db g))"
    using second by (simp add: first)
  show "user_table (snd (OAuthGoogleCallback jwt t1 db g)) = user_table db"
    by (simp add: first db1_def)
  show "filter (\<lambda>x. user_email x = g_email g)
      (user_table (snd (OAuthGoogleCallback jwt t1 db g))) = [u]"
    if "distinct (map user_email (user_table db))"
    using find_distinct_filter [OF that, of "g_email g" u] found
    by (simp add: first db1_def user_findFirst_def)
  show "filter (\<lambda>a. oa_provider a = Google)
            (include_OAuthAccount (snd (OAuthGoogleCallback jwt t1 db g)) u) =
          [\<lparr> oa_id = cuid_counter db, oa_userId = user_id u, oa_provider = Google,
             oa_providerId = g_sub g \<rparr>]"
    using only by (simp add: first acc_def)
qed

text \<open>
  Bob links the subject \<open>g-bob\<close> at time 100 and signs in again at time 200: the two
  tokens differ and both are his. Bob cannot link the subject that is linked to Carol.
  Carol is linked already.
\<close>

theorem oauth_link_existing_user_idempotent_witness:
  "user_findFirst shop_db (g_email (google_user ''bob@example.com'' ''g-bob'')) = Some bob \<and>
   find (\<lambda>a. oa_provider a = Google) (include_OAuthAccount shop_db bob) = None \<and>
   find (\<lambda>a. oa_provider a = Google \<and> oa_providerId a = ''g-bob'') (oAuthAccount_table shop_db)
     = None \<and>
   OAuthGoogleCallback demo_jwt 100 shop_db (google_user ''bob@example.com'' ''g-bob'') =
     (Inr (JObject [(''token'', JString ''jwt-0-at-100'')]),
      shop_db \<lparr> oAuthAccount_table :=
                  [carol_google,
                   \<lparr> oa_id = 4, oa_userId = 0, oa_provider = Google, oa_providerId = ''g-bob'' \<rparr>],
                cuid_counter := 5 \<rparr>) \<and>
   OAuthGoogleCallback demo_jwt 200
       (snd (OAuthGoogleCallback demo_jwt 100 shop_db (google_user ''bob@example.com'' ''g-bob'')))
       (google_user ''bob@example.com'' ''g-bob'') =
     (Inr (JObject [(''token'', JString ''jwt-0-at-200'')]),
      snd (OAuthGoogleCallback demo_jwt 100 shop_db (google_user ''bob@example.com'' ''g-bob''))) \<and>
   distinct (map user_email (user_table shop_db)) \<and>
   filter (\<lambda>x. user_email x = ''bob@example.com'')
       (user_table (snd (OAuthGoogleCallback demo_jwt 100 shop_db
          (google_user ''bob@example.com'' ''g-bob'')))) = [bob] \<and>
   find (\<lambda>a. oa_provider a = Google \<and> oa_providerId a = ''g-carol'') (oAuthAccount_table shop_db)
     = Some carol_google \<and>
   OAuthGoogleCallback demo_jwt 100 shop_db (google_user ''bob@example.com'' ''g-carol'') =
     (Inl (PrismaUniqueConstraintError [''provider'', ''providerId'']), shop_db) \<and>
   user_findFirst shop_db (g_email (google_user ''carol@example.com'' ''g-carol'')) = Some carol \<and>
   find (\<lambda>a. oa_provider a = Google) (include_OAuthAccount shop_db carol) = Some carol_google \<and>
   OAuthGoogleCallback demo_jwt 100 shop_db (google_user ''carol@example.com'' ''g-carol'') =
     (Inr (JObject [(''token'', JString ''jwt-1-at-100'')]), shop_db)"
proof -
  let ?gb = "google_user ''bob@example.com'' ''g-bob''"
  let ?gx = "google_user ''bob@example.com'' ''g-carol''"
  let ?gc = "google_user ''carol@example.com'' ''g-carol''"
  have fb: "user_findFirst shop_db (g_email ?gb) = Some bob"
    by (simp add: google_user_def shop_bob)
  have fx: "user_findFirst shop_db (g_email ?gx) = Some bob"
    by (simp add: google_user_def shop_bob)
  have fc: "user_findFirst shop_db (g_email ?gc) = Some carol"
    by (simp add: google_user_def shop_carol)
  have nb: "find (\<lambda>a. oa_provider a = Google) (include_OAuthAccount shop_db bob) = None"
    by (simp add: shop_bob_accounts)
  have ub: "find (\<lambda>a. oa_provider a = Google \<and> oa_providerId a = ''g-bob'')
      (oAuthAccount_table shop_db) = None"
    by (simp add: shop_db_def carol_google_def)
  have ub': "find (\<lambda>a. oa_provider a = Google \<and> oa_providerId a = g_sub ?gb)
      (oAuthAccount_table shop_db) = None"
    using ub by (simp add: google_user_def)
  have tx: "find (\<lambda>a. oa_provider a = Google \<and> oa_providerId a = ''g-carol'')
      (oAuthAccount_table shop_db) = Some carol_google"
    by (simp add: shop_db_def carol_google_def)
  have tx': "find (\<lambda>a. oa_provider a = Google \<and> oa_providerId a = g_sub ?gx)
      (oAuthAccount_table shop_db) \<noteq> None"
    using tx by (simp add: google_user_def)
  have lc: "find (\<lambda>a. oa_provider a = Google) (include_OAuthAccount shop_db carol) = Some carol_google"
    by (simp add: shop_carol_accounts carol_google_def)
  have lc': "find (\<lambda>a. oa_provider a = Google) (include_OAuthAccount shop_db carol) \<noteq> None"
    using lc by simp
  have tb1: "token_for demo_jwt 100 (user_id bob) = JObject [(''token'', JString ''jwt-0-at-100'')]"
    by (simp add: token_for_def demo_jwt_def codebook_jwt_def bob_def)
  have tb2: "token_for demo_jwt 200 (user_id bob) = JObject [(''token'', JString ''jwt-0-at-200'')]"
    by (simp add: token_for_def demo_jwt_def codebook_jwt_def bob_def)
  have tc: "token_for demo_jwt 100 (user_id carol) = JObject [(''token'', JString ''jwt-1-at-100'')]"
    by (simp add: token_for_def demo_jwt_def codebook_jwt_def carol_def)
  have db1: "shop_db \<lparr> oAuthAccount_table := oAuthAccount_table shop_db @
                   [\<lparr> oa_id = cuid_counter shop_db, oa_userId = user_id bob,
                      oa_provider = Google, oa_providerId = g_sub ?gb \<rparr>],
                 cuid_counter := Suc (cuid_counter shop_db) \<rparr>
      = shop_db \<lparr> oAuthAccount_table :=
                  [carol_google,
                   \<lparr> oa_id = 4, oa_userId = 0, oa_provider = Google, oa_providerId = ''g-bob'' \<rparr>],
                cuid_counter := 5 \<rparr>"
    by (simp add: shop_db_def bob_def google_user_def)
  have hb: "user_findFirst shop_db (g_email ?gb) = Some bob \<and>
        find (\<lambda>a. oa_provider a = Google) (include_OAuthAccount shop_db bob) = None \<and>
        find (\<lambda>a. oa_provider a = Google \<and> oa_providerId a = g_sub ?gb) (oAuthAccount_table shop_db)
          = None"
    using fb nb ub' by simp
  note B = mp [OF spec [OF conjunct1 [OF oauth_link_existing_user_idempotent
      [of shop_db ?gb demo_jwt 100 200]], of bob] hb]
  have bobs: "OAuthGoogleCallback demo_jwt 100 shop_db ?gb =
       (Inr (JObject [(''token'', JString ''jwt-0-at-100'')]),
        shop_db \<lparr> oAuthAccount_table :=
                  [carol_google,
                   \<lparr> oa_id = 4, oa_userId = 0, oa_provider = Google, oa_providerId = ''g-bob'' \<rparr>],
                cuid_counter := 5 \<rparr>)"
    using conjunct1 [OF B] by (simp only: tb1 db1)
  have bobs2: "OAuthGoogleCallback demo_jwt 200 (snd (OAuthGoogleCallback demo_jwt 100 shop_db ?gb)) ?gb =
       (Inr (JObject [(''token'', JString ''jwt-0-at-200'')]),
        snd (OAuthGoogleCallback demo_jwt 100 shop_db ?gb))"
    using conjunct1 [OF conjunct2 [OF B]] by (simp only: tb2)
  have one: "filter (\<lambda>x. user_email x = ''bob@example.com'')
       (user_table (snd (OAuthGoogleCallback demo_jwt 100 shop_db ?gb))) = [bob]"
    using mp [OF conjunct1 [OF conjunct2 [OF conjunct2 [OF conjunct2 [OF B]]]] shop_emails]
    by (simp add: google_user_def)
  have hx: "user_findFirst shop_db (g_email ?gx) = Some bob \<and>
        find (\<lambda>a. oa_provider a = Google) (include_OAuthAccount shop_db bob) = None \<and>
        find (\<lambda>a. oa_provider a = Google \<and> oa_providerId a = g_sub ?gx) (oAuthAccount_table shop_db)
          \<noteq> None"
    using fx nb tx' by simp
  have taken: "OAuthGoogleCallback demo_jwt 100 shop_db ?gx =
     (Inl (PrismaUniqueConstraintError [''provider'', ''providerId'']), shop_db)"
    by (rule mp [OF spec [OF conjunct1 [OF conjunct2 [OF oauth_link_existing_user_idempotent
      [of shop_db ?gx demo_jwt 100 200]]], of bob] hx])
  have hc: "user_findFirst shop_db (g_email ?gc) = Some carol \<and>
        find (\<lambda>a. oa_provider a = Google) (include_OAuthAccount shop_db carol) \<noteq> None"
    using fc lc' by simp
  have carols: "OAuthGoogleCallback demo_jwt 100 shop_db ?gc =
       (Inr (JObject [(''token'', JString ''jwt-1-at-100'')]), shop_db)"
    using mp [OF spec [OF conjunct2 [OF conjunct2 [OF oauth_link_existing_user_idempotent
      [of shop_db ?gc demo_jwt 100 200]]], of carol] hc]
    by (simp only: tc)
  show ?thesis
    by (intro conjI) (fact fb nb ub bobs bobs2 shop_emails one tx taken fc lc carols)+
qed

text \<open>
  C3 as stated has no condition on the subject id. Bob has no Google account, the
  subject \<open>g-carol\<close> is linked to Carol, and the unique index on
  \<open>(provider, providerId)\<close> rejects the row: the callback throws and links nothing.
\<close>

theorem oauth_link_subject_taken_counterexample:
  "user_findFirst shop_db ''bob@example.com'' = Some bob \<and>
   include_OAuthAccount shop_db bob = [] \<and>
   OAuthGoogleCallback demo_jwt 100 shop_db (google_user ''bob@example.com'' ''g-carol'') =
     (Inl (PrismaUniqueConstraintError [''provider'', ''providerId'']), shop_db)"
  by (simp add: shop_bob shop_bob_accounts OAuthGoogleCallback_def google_user_def
      oAuthAccount_create_def, simp add: shop_db_def carol_google_def)

text \<open>
  C4 (as amended). In a well-formed store with no User of the asserted email, the
  callback creates a User with no password and with the defaults of the schema, so
  email-verified is false; then, as a second and separate write, it creates the
  OAuthAccount row that links Google and the subject id to the new User, and returns
  the token. The two writes are not one transaction: when the subject id is already
  linked, the second write is rejected, the callback throws, and the new User stays in
  the store without an account.
\<close>

theorem oauth_new_user_two_separate_writes:
  assumes "db_ok db" and "user_findFirst db (g_email g) = None"
  shows
    "(find (\<lambda>a. oa_provider a = Google \<and> oa_providerId a = g_sub g) (oAuthAccount_table db) = None
      \<longrightarrow>
        OAuthGoogleCallback jwt now db g =
          (Inr (token_for jwt now (cuid_counter db)),
           db \<lparr> user_table := user_table db @
                   [\<lparr> user_id = cuid_counter db, user_email = g_email g, user_password = None,
                      user_firstName = g_firstName g, user_lastName = g_lastName g,
                      user_username = username_or_local_part g, user_role = CUSTOMER,
                      user_isEmailVerified = False, user_isTwoFA = False,
                      user_isActive = True \<rparr>],
                 oAuthAccount_table := oAuthAccount_table db @
                   [\<lparr> oa_id = Suc (cuid_counter db), oa_userId = cuid_counter db,
                      oa_provider = Google, oa_providerId = g_sub g \<rparr>],
                 cuid_counter := Suc (Suc (cuid_counter db)) \<rparr>)) \<and>
     (find (\<lambda>a. oa_provider a = Google \<and> oa_providerId a = g_sub g) (oAuthAccount_table db) \<noteq> None
      \<longrightarrow>
        OAuthGoogleCallback jwt now db g =
          (Inl (PrismaUniqueConstraintError [''provider'', ''providerId'']),
           db \<lparr> user_table := user_table db @
                   [\<lparr> user_id = cuid_counter db, user_email = g_email g, user_password = None,
                      user_firstName = g_firstName g, user_lastName = g_lastName g,
                      user_username = username_or_local_part g, user_role = CUSTOMER,
                      user_isEmailVerified = False, user_isTwoFA = False,
                      user_isActive = True \<rparr>],
                 cuid_counter := Suc (cuid_counter db) \<rparr>))"
  using oauth_new [OF assms, of jwt now] oauth_new_rejected [OF assms(2), of jwt now] by blast

text \<open>
  Dave signs in with a new subject; Erin signs in with the subject that is linked to
  Carol.
\<close>

theorem oauth_new_user_two_separate_writes_witness:
  "db_ok shop_db \<and>
   user_findFirst shop_db (g_email (google_user ''dave@example.com'' ''g-dave'')) = None \<and>
   find (\<lambda>a. oa_provider a = Google \<and> oa_providerId a = ''g-dave'') (oAuthAccount_table shop_db)
     = None \<and>
   OAuthGoogleCallback demo_jwt 100 shop_db (google_user ''dave@example.com'' ''g-dave'') =
     (Inr (JObject [(''token'', JString ''jwt-4-at-100'')]),
      shop_db \<lparr> user_table := [bob, carol, trent,
                   \<lparr> user_id = 4, user_email = ''dave@example.com'', user_password = None,
                      user_firstName = None, user_lastName = None, user_username = ''dave'',
                      user_role = CUSTOMER, user_isEmailVerified = False, user_isTwoFA = False,
                      user_isActive = True \<rparr>],
                oAuthAccount_table := [carol_google,
                   \<lparr> oa_id = 5, oa_userId = 4, oa_provider = Google, oa_providerId = ''g-dave'' \<rparr>],
                cuid_counter := 6 \<rparr>) \<and>
   user_findFirst shop_db (g_email (google_user ''erin@example.com'' ''g-carol'')) = None \<and>
   find (\<lambda>a. oa_provider a = Google \<and> oa_providerId a = ''g-carol'') (oAuthAccount_table shop_db)
     = Some carol_google \<and>
   OAuthGoogleCallback demo_jwt 100 shop_db (google_user ''erin@example.com'' ''g-carol'') =
     (Inl (PrismaUniqueConstraintError [''provider'', ''providerId'']),
      shop_db \<lparr> user_table := [bob, carol, trent,
                   \<lparr> user_id = 4, user_email = ''erin@example.com'', user_password = None,
                      user_firstName = None, user_lastName = None, user_username = ''erin'',
                      user_role = CUSTOMER, user_isEmailVerified = False, user_isTwoFA = False,
                      user_isActive = True \<rparr>],
                cuid_counter := 5 \<rparr>)"
proof -
  let ?gd = "google_user ''dave@example.com'' ''g-dave''"
  let ?ge = "google_user ''erin@example.com'' ''g-carol''"
  have nd: "user_findFirst shop_db (g_email ?gd) = None"
    by (simp add: google_user_def shop_no_dave)
  have ne: "user_findFirst shop_db (g_email ?ge) = None"
    by (simp add: google_user_def shop_no_erin)
  have ud: "find (\<lambda>a. oa_provider a = Google \<and> oa_providerId a = ''g-dave'')
      (oAuthAccount_table shop_db) = None"
    by (simp add: shop_db_def carol_google_def)
  have ud': "find (\<lambda>a. oa_provider a = Google \<and> oa_providerId a = g_sub ?gd)
      (oAuthAccount_table shop_db) = None"
    using ud by (simp add: google_user_def)
  have le: "find (\<lambda>a. oa_provider a = Google \<and> oa_providerId a = ''g-carol'')
      (oAuthAccount_table shop_db) = Some carol_google"
    by (simp add: shop_db_def carol_google_def)
  have le': "find (\<lambda>a. oa_provider a = Google \<and> oa_providerId a = g_sub ?ge)
      (oAuthAccount_table shop_db) \<noteq> None"
    using le by (simp add: google_user_def)
  have td: "token_for demo_jwt 100 (cuid_counter shop_db) = JObject [(''token'', JString ''jwt-4-at-100'')]"
    by (simp add: token_for_def demo_jwt_def codebook_jwt_def shop_db_def)
  have d1: "OAuthGoogleCallback demo_jwt 100 shop_db ?gd =
     (Inr (JObject [(''token'', JString ''jwt-4-at-100'')]),
      shop_db \<lparr> user_table := [bob, carol, trent,
                   \<lparr> user_id = 4, user_email = ''dave@example.com'', user_password = None,
                      user_firstName = None, user_lastName = None, user_username = ''dave'',
                      user_role = CUSTOMER, user_isEmailVerified = False, user_isTwoFA = False,
                      user_isActive = True \<rparr>],
                oAuthAccount_table := [carol_google,
                   \<lparr> oa_id = 5, oa_userId = 4, oa_provider = Google, oa_providerId = ''g-dave'' \<rparr>],
                cuid_counter := 6 \<rparr>)"
    using oauth_new_user_two_separate_writes [OF shop_db_ok nd, of demo_jwt 100] ud'
    by (simp add: td local_part_dave) (simp add: shop_db_def google_user_def)
  have e1: "OAuthGoogleCallback demo_jwt 100 shop_db ?ge =
     (Inl (PrismaUniqueConstraintError [''provider'', ''providerId'']),
      shop_db \<lparr> user_table := [bob, carol, trent,
                   \<lparr> user_id = 4, user_email = ''erin@example.com'', user_password = None,
                      user_firstName = None, user_lastName = None, user_username = ''erin'',
                      user_role = CUSTOMER, user_isEmailVerified = False, user_isTwoFA = False,
                      user_isActive = True \<rparr>],
                cuid_counter := 5 \<rparr>)"
    using oauth_new_user_two_separate_writes [OF shop_db_ok ne, of demo_jwt 100] le'
    by (simp add: local_part_erin) (simp add: shop_db_def google_user_def)
  show ?thesis
    using shop_db_ok nd ud d1 ne le e1 by blast
qed

text \<open>
  C4 as stated: email-verified is true and no partly created state can be observed.
  Dave's row has email-verified false; Erin's callback throws and leaves her User row
  behind, with Carol's account the only account.
\<close>

theorem oauth_new_user_unverified_partial_counterexample:
  "user_findFirst shop_db ''dave@example.com'' = None \<and>
   map user_isEmailVerified
       (filter (\<lambda>u. user_email u = ''dave@example.com'')
          (user_table (snd (OAuthGoogleCallback demo_jwt 100 shop_db
             (google_user ''dave@example.com'' ''g-dave'')))))
     = [False] \<and>
   user_findFirst shop_db ''erin@example.com'' = None \<and>
   fst (OAuthGoogleCallback demo_jwt 100 shop_db (google_user ''erin@example.com'' ''g-carol''))
     = Inl (PrismaUniqueConstraintError [''provider'', ''providerId'']) \<and>
   map user_email
       (user_table (snd (OAuthGoogleCallback demo_jwt 100 shop_db
          (google_user ''erin@example.com'' ''g-carol''))))
     = [''bob@example.com'', ''carol@example.com'', ''trent@example.com'', ''erin@example.com''] \<and>
   oAuthAccount_table (snd (OAuthGoogleCallback demo_jwt 100 shop_db
       (google_user ''erin@example.com'' ''g-carol'')))
     = [carol_google]"
  by (simp add: shop_no_dave shop_no_erin OAuthGoogleCallback_def google_user_def
      user_create_def oAuthAccount_create_def no_extra_def Let_def,
      simp add: shop_db_def bob_def carol_def trent_def carol_google_def)

text \<open>
  C7 (as amended). Where the asserted email belongs to a deactivated User, the callback
  issues the token for that User as it does for an active one: at once when the User has
  a Google account, and after linking when the subject id is not yet linked. The active
  flag is not read.
\<close>

theorem oauth_ignores_active_flag:
  assumes "user_findFirst db (g_email g) = Some u" and "\<not> user_isActive u"
  shows
    "(find (\<lambda>a. oa_provider a = Google) (include_OAuthAccount db u) \<noteq> None \<longrightarrow>
        OAuthGoogleCallback jwt now db g = (Inr (token_for jwt now (user_id u)), db)) \<and>
     (find (\<lambda>a. oa_provider a = Google) (include_OAuthAccount db u) = None \<and>
      find (\<lambda>a. oa_provider a = Google \<and> oa_providerId a = g_sub g) (oAuthAccount_table db) = None
      \<longrightarrow> fst (OAuthGoogleCallback jwt now db g) = Inr (token_for jwt now (user_id u)))"
proof (intro conjI impI)
  assume "find (\<lambda>a. oa_provider a = Google) (include_OAuthAccount db u) \<noteq> None"
  then show "OAuthGoogleCallback jwt now db g = (Inr (token_for jwt now (user_id u)), db)"
    using oauth_linked [OF assms(1)] by auto
next
  assume "find (\<lambda>a. oa_provider a = Google) (include_OAuthAccount db u) = None \<and>
      find (\<lambda>a. oa_provider a = Google \<and> oa_providerId a = g_sub g) (oAuthAccount_table db) = None"
  then show "fst (OAuthGoogleCallback jwt now db g) = Inr (token_for jwt now (user_id u))"
    using oauth_link [OF assms(1), of jwt now] by simp
qed

text \<open>Carol is deactivated and linked.\<close>

theorem oauth_ignores_active_flag_witness:
  "user_findFirst shop_db (g_email (google_user ''carol@example.com'' ''g-carol'')) = Some carol \<and>
   \<not> user_isActive carol \<and>
   find (\<lambda>a. oa_provider a = Google) (include_OAuthAccount shop_db carol) \<noteq> None \<and>
   OAuthGoogleCallback demo_jwt 100 shop_db (google_user ''carol@example.com'' ''g-carol'') =
     (Inr (JObject [(''token'', JString ''jwt-1-at-100'')]), shop_db)"
proof -
  let ?gc = "google_user ''carol@example.com'' ''g-carol''"
  have fc: "user_findFirst shop_db (g_email ?gc) = Some carol"
    by (simp add: google_user_def shop_carol)
  have off: "\<not> user_isActive carol"
    by (simp add: carol_def)
  have lc: "find (\<lambda>a. oa_provider a = Google) (include_OAuthAccount shop_db carol) \<noteq> None"
    by (simp add: shop_carol_accounts carol_google_def)
  have tc: "token_for demo_jwt 100 (user_id carol) = JObject [(''token'', JString ''jwt-1-at-100'')]"
    by (simp add: token_for_def demo_jwt_def codebook_jwt_def carol_def)
  have "OAuthGoogleCallback demo_jwt 100 shop_db ?gc = (Inr (token_for demo_jwt 100 (user_id carol)), shop_db)"
    using oauth_ignores_active_flag [OF fc off, of demo_jwt 100] lc by blast
  then show ?thesis
    using fc off lc by (simp only: tc) simp
qed

text \<open>
  C7 as stated says the callback fails for a deactivated User. Carol receives a token.
\<close>

theorem oauth_deactivated_user_counterexample:
  "user_findFirst shop_db ''carol@example.com'' = Some carol \<and> \<not> user_isActive carol \<and>
   fst (OAuthGoogleCallback demo_jwt 100 shop_db (google_user ''carol@example.com'' ''g-carol''))
     = Inr (JObject [(''token'', JString ''jwt-1-at-100'')])"
  by (simp add: shop_carol shop_carol_accounts OAuthGoogleCallback_def google_user_def
      token_for_def, simp add: carol_def carol_google_def demo_jwt_def codebook_jwt_def)

section \<open>The refresh-token table and the shape of the results\<close>










section \<open>The guard\<close>

text \<open>
  When no header is named \<open>authoriztion\<close>, the outcome is decided by the cookie alone; and
  the guard lets a request pass only with a token that verifies.
\<close>

lemma canActivate_reads_cookie_only:
  assumes "map_of (headers request) ''authoriztion'' = None"
    and "cookies request = Some cs"
  shows "canActivate jwt now request =
    (case jwt_verify jwt now (map_of cs ''token'') of
       None \<Rightarrow> Inl (ForbiddenException ''Token invalid'')
     | Some p \<Rightarrow> Inr (True, request \<lparr> req_user :=
                  Some \<lparr> ru_id = map_of p ''id'', ru_role = map_of p ''role'' \<rparr> \<rparr>))"
  using assms by (simp add: canActivate_def)

lemma canActivate_fails_closed:
  assumes "canActivate jwt now request = Inr (b, request')"
  shows "\<exists>t p. t \<noteq> [] \<and> verifyAsync jwt now t = Some p \<and> b \<and>
    request' = request \<lparr> req_user := Some \<lparr> ru_id = map_of p ''id'', ru_role = map_of p ''role'' \<rparr> \<rparr>"
  using assms
  by (auto simp add: canActivate_def jwt_verify_def Let_def split: option.splits if_splits sum.splits)

text \<open>
  C8. A request that carries a valid token in its \<open>authorization\<close> header and no cookie:
  the guard looks for a header named \<open>authoriztion\<close>, finds no token, falls back to the
  cookie, finds none, and throws \<open>ForbiddenException\<close>.
\<close>

theorem canActivate_misses_authorization_header:
  "map_of (headers bearer_request) ''authorization'' = Some ''Bearer jwt-0-at-100'' \<and>
   verifyAsync demo_jwt 150 ''jwt-0-at-100'' =
     Some [(''userId'', JCuid 0), (''iat'', JNum 100), (''exp'', JNum 604900)] \<and>
   canActivate demo_jwt 150 bearer_request = Inl (ForbiddenException ''Token invalid'')"
  by (simp add: canActivate_def bearer_request_def demo_jwt_def codebook_jwt_def jwt_verify_def
      expiresIn_def)

text \<open>
  C9. Bob is an administrator without two-factor authentication. He logs in with the
  right password; the payload of his token is \<open>{ userId }\<close>, to which the library adds
  the two times. The guard, given that token in the cookie, reads \<open>id\<close> and \<open>role\<close> from
  the payload and attaches a user with neither.
\<close>

theorem login_token_resolves_no_id_no_role:
  "user_findFirst shop_db ''bob@example.com'' = Some bob \<and>
   user_role bob = ADMIN \<and> \<not> user_isTwoFA bob \<and>
   login marker_bcrypt demo_jwt 100 shop_db ''bob@example.com'' ''hunter2''
     = (Inr (JObject [(''token'', JString ''jwt-0-at-100'')]), shop_db) \<and>
   verifyAsync demo_jwt 150 ''jwt-0-at-100'' =
     Some [(''userId'', JCuid (user_id bob)), (''iat'', JNum 100), (''exp'', JNum 604900)] \<and>
   canActivate demo_jwt 150 (cookie_request ''jwt-0-at-100'')
     = Inr (True, (cookie_request ''jwt-0-at-100'')
              \<lparr> req_user := Some \<lparr> ru_id = None, ru_role = None \<rparr> \<rparr>)"
  by (simp add: shop_bob login_def canActivate_def cookie_request_def jwt_verify_def,
      simp add: bob_def marker_bcrypt_def demo_jwt_def codebook_jwt_def expiresIn_def)

section \<open>Rotation of refresh tokens\<close>

text \<open>A new token is not in the table: it is longer than every token there.\<close>

lemma foldr_max_ge: "x \<in> set xs \<Longrightarrow> x \<le> foldr max xs (0::nat)"
  by (induction xs) (auto simp add: max_def)

lemma opaque_token_fresh:
  "find (\<lambda>x. rt_token x = opaque_token entropy db) (refreshToken_table db) = None"
proof -
  have "length (rt_token r) < length (opaque_token entropy db)"
    if "r \<in> set (refreshToken_table db)" for r
  proof -
    have "length (rt_token r) \<le> longest_token db"
      unfolding longest_token_def using that by (intro foldr_max_ge) simp
    then show ?thesis
      by (simp add: opaque_token_def)
  qed
  then have "\<forall>r \<in> set (refreshToken_table db). rt_token r \<noteq> opaque_token entropy db"
    by fastforce
  then show ?thesis
    by (simp add: find_None_iff)
qed

lemma opaque_token_fresh_others:
  "find (\<lambda>x. rt_token x = opaque_token entropy db)
     (filter (\<lambda>x. rt_token x \<noteq> t) (refreshToken_table db)) = None"
  using opaque_token_fresh [of entropy db] by (auto simp add: find_None_iff)

text \<open>The branches of the rotation, one lemma each, and what an accepted rotation was.\<close>

lemma rotate_absent:
  "find (\<lambda>r. rt_token r = t) (refreshToken_table db) = None \<Longrightarrow>
   rotateRefreshToken access entropy now db t = (Inl InvalidToken, db)"
  by (simp add: rotateRefreshToken_def)

lemma rotate_expired:
  "find (\<lambda>r. rt_token r = t) (refreshToken_table db) = Some r \<Longrightarrow> rt_expiresAt r \<le> now \<Longrightarrow>
   rotateRefreshToken access entropy now db t =
     (Inl InvalidToken,
      db \<lparr> refreshToken_table := filter (\<lambda>x. rt_token x \<noteq> t) (refreshToken_table db) \<rparr>)"
  by (simp add: rotateRefreshToken_def)

lemma rotate_accepted:
  "find (\<lambda>r. rt_token r = t) (refreshToken_table db) = Some r \<Longrightarrow> now < rt_expiresAt r \<Longrightarrow>
   rotateRefreshToken access entropy now db t =
     (Inr (access now r, opaque_token entropy db),
      db \<lparr> refreshToken_table :=
             filter (\<lambda>x. rt_token x \<noteq> t) (refreshToken_table db) @
               [\<lparr> rt_id = cuid_counter db, rt_token = opaque_token entropy db,
                  rt_userId = rt_userId r, rt_expiresAt = now + refresh_ttl \<rparr>],
           cuid_counter := Suc (cuid_counter db) \<rparr>)"
  by (simp add: rotateRefreshToken_def Let_def opaque_token_fresh_others)

lemma rotate_never_server_error:
  "fst (rotateRefreshToken access entropy now db t) \<noteq> Inl ServerError"
  by (simp add: rotateRefreshToken_def Let_def opaque_token_fresh_others split: option.splits)

lemma rotate_success:
  assumes "rotateRefreshToken access entropy now db t = (Inr (a, tokenB), db1)"
  shows "\<exists>r. find (\<lambda>r. rt_token r = t) (refreshToken_table db) = Some r \<and> now < rt_expiresAt r \<and>
    a = access now r \<and> tokenB = opaque_token entropy db \<and>
    db1 = db \<lparr> refreshToken_table :=
             filter (\<lambda>x. rt_token x \<noteq> t) (refreshToken_table db) @
               [\<lparr> rt_id = cuid_counter db, rt_token = tokenB,
                  rt_userId = rt_userId r, rt_expiresAt = now + refresh_ttl \<rparr>],
           cuid_counter := Suc (cuid_counter db) \<rparr>"
proof (cases "find (\<lambda>r. rt_token r = t) (refreshToken_table db)")
  case None
  then show ?thesis
    using assms rotate_absent [of t db access entropy now] by simp
next
  case (Some r)
  show ?thesis
  proof (cases "rt_expiresAt r \<le> now")
    case True
    then show ?thesis
      using assms rotate_expired [OF Some, of now access entropy] by simp
  next
    case False
    then have live: "now < rt_expiresAt r"
      by simp
    show ?thesis
      using assms rotate_accepted [OF Some live, of access entropy] Some live by auto
  qed
qed

text \<open>
  C6. Rotation as the Token Issuer is described. A token that is absent or expired is
  refused with \<open>InvalidToken\<close>; the absent one leaves the store as it was, the expired
  one is deleted. A token that is in the table and not expired is accepted. Whenever
  \<open>tokenA\<close> is accepted and the call yields \<open>tokenB\<close>: the two differ; the resulting table
  is the old one with the row of \<open>tokenA\<close> deleted and the row of \<open>tokenB\<close> added, both in
  the one step; no row holds \<open>tokenA\<close>; every later rotation of \<open>tokenA\<close> is refused with
  \<open>InvalidToken\<close>; and a rotation of \<open>tokenB\<close> before its expiry succeeds.
\<close>

theorem refresh_rotation_single_use:
  "(find (\<lambda>r. rt_token r = t) (refreshToken_table db) = None \<longrightarrow>
      rotateRefreshToken access entropy now db t = (Inl InvalidToken, db)) \<and>
   (\<forall>r. find (\<lambda>r. rt_token r = t) (refreshToken_table db) = Some r \<and> rt_expiresAt r \<le> now \<longrightarrow>
      rotateRefreshToken access entropy now db t =
        (Inl InvalidToken,
         db \<lparr> refreshToken_table := filter (\<lambda>x. rt_token x \<noteq> t) (refreshToken_table db) \<rparr>)) \<and>
   (\<forall>r. find (\<lambda>r. rt_token r = t) (refreshToken_table db) = Some r \<and> now < rt_expiresAt r \<longrightarrow>
      (\<exists>tokenB db1.
         rotateRefreshToken access entropy now db t = (Inr (access now r, tokenB), db1))) \<and>
   (\<forall>a tokenB db1.
      rotateRefreshToken access entropy now db tokenA = (Inr (a, tokenB), db1) \<longrightarrow>
      tokenB \<noteq> tokenA \<and>
      (\<exists>r. find (\<lambda>r. rt_token r = tokenA) (refreshToken_table db) = Some r \<and>
           refreshToken_table db1 =
             filter (\<lambda>x. rt_token x \<noteq> tokenA) (refreshToken_table db) @
               [\<lparr> rt_id = cuid_counter db, rt_token = tokenB, rt_userId = rt_userId r,
                  rt_expiresAt = now + refresh_ttl \<rparr>]) \<and>
      find (\<lambda>r. rt_token r = tokenA) (refreshToken_table db1) = None \<and>
      (\<forall>entropy' now'.
         rotateRefreshToken access entropy' now' db1 tokenA = (Inl InvalidToken, db1)) \<and>
      (\<forall>entropy' now'. now' < now + refresh_ttl \<longrightarrow>
         (\<exists>a' tokenC db2.
            rotateRefreshToken access entropy' now' db1 tokenB = (Inr (a', tokenC), db2))))"
proof (intro conjI allI impI)
  assume "find (\<lambda>r. rt_token r = t) (refreshToken_table db) = None"
  then show "rotateRefreshToken access entropy now db t = (Inl InvalidToken, db)"
    by (rule rotate_absent)
next
  fix r
  assume "find (\<lambda>r. rt_token r = t) (refreshToken_table db) = Some r \<and> rt_expiresAt r \<le> now"
  then show "rotateRefreshToken access entropy now db t =
        (Inl InvalidToken,
         db \<lparr> refreshToken_table := filter (\<lambda>x. rt_token x \<noteq> t) (refreshToken_table db) \<rparr>)"
    using rotate_expired by blast
next
  fix r
  assume "find (\<lambda>r. rt_token r = t) (refreshToken_table db) = Some r \<and> now < rt_expiresAt r"
  then show "\<exists>tokenB db1.
      rotateRefreshToken access entropy now db t = (Inr (access now r, tokenB), db1)"
    using rotate_accepted [of t db r now access entropy] by blast
next
  fix a tokenB db1
  assume acc: "rotateRefreshToken access entropy now db tokenA = (Inr (a, tokenB), db1)"
  obtain r where r: "find (\<lambda>r. rt_token r = tokenA) (refreshToken_table db) = Some r"
    and b: "tokenB = opaque_token entropy db"
    and db1: "db1 = db \<lparr> refreshToken_table :=
             filter (\<lambda>x. rt_token x \<noteq> tokenA) (refreshToken_table db) @
               [\<lparr> rt_id = cuid_counter db, rt_token = tokenB,
                  rt_userId = rt_userId r, rt_expiresAt = now + refresh_ttl \<rparr>],
           cuid_counter := Suc (cuid_counter db) \<rparr>"
    using rotate_success [OF acc] by blast
  define new where "new = \<lparr> rt_id = cuid_counter db, rt_token = tokenB,
      rt_userId = rt_userId r, rt_expiresAt = now + refresh_ttl \<rparr>"
  have table: "refreshToken_table db1 =
      filter (\<lambda>x. rt_token x \<noteq> tokenA) (refreshToken_table db) @ [new]"
    by (simp add: db1 new_def)
  have fresh: "find (\<lambda>x. rt_token x = tokenB) (refreshToken_table db) = None"
    unfolding b by (rule opaque_token_fresh)
  show ne: "tokenB \<noteq> tokenA"
    using fresh r by auto
  show "\<exists>r. find (\<lambda>r. rt_token r = tokenA) (refreshToken_table db) = Some r \<and>
      refreshToken_table db1 =
        filter (\<lambda>x. rt_token x \<noteq> tokenA) (refreshToken_table db) @
          [\<lparr> rt_id = cuid_counter db, rt_token = tokenB, rt_userId = rt_userId r,
             rt_expiresAt = now + refresh_ttl \<rparr>]"
    using r table by (auto simp add: new_def)
  show gone: "find (\<lambda>r. rt_token r = tokenA) (refreshToken_table db1) = None"
    using ne by (auto simp add: table new_def find_None_iff)
  show "rotateRefreshToken access entropy' now' db1 tokenA = (Inl InvalidToken, db1)"
    for entropy' now'
    using gone by (rule rotate_absent)
  have "find (\<lambda>x. rt_token x = tokenB)
      (filter (\<lambda>x. rt_token x \<noteq> tokenA) (refreshToken_table db)) = None"
    using fresh by (auto simp add: find_None_iff)
  then have kept: "find (\<lambda>x. rt_token x = tokenB) (refreshToken_table db1) = Some new"
    by (simp add: table find_append_None new_def)
  show "\<exists>a' tokenC db2.
      rotateRefreshToken access entropy' now' db1 tokenB = (Inr (a', tokenC), db2)"
    if "now' < now + refresh_ttl" for entropy' now'
  proof -
    have "now' < rt_expiresAt new"
      using that by (simp add: new_def)
    then show ?thesis
      using rotate_accepted [OF kept, of now' access entropy'] by blast
  qed
qed

text \<open>
  The row \<open>rt-A\<close> is rotated at time 100; at time 200 \<open>rt-A\<close> is refused and the new token
  is rotated again; an unknown token is refused, and \<open>rt-A\<close> at its expiry is refused and
  deleted.
\<close>

theorem refresh_rotation_single_use_witness:
  "find (\<lambda>r. rt_token r = ''rt-A'') (refreshToken_table session_db) = Some rowA \<and>
   100 < rt_expiresAt rowA \<and>
   rotateRefreshToken demo_access ''d1'' 100 session_db ''rt-A'' =
     (Inr (''jwt-0-at-100'', ''d1=====''),
      session_db \<lparr> refreshToken_table :=
          [\<lparr> rt_id = 2, rt_token = ''d1====='', rt_userId = 0,
             rt_expiresAt = 100 + refresh_ttl \<rparr>],
        cuid_counter := 3 \<rparr>) \<and>
   ''d1====='' \<noteq> ''rt-A'' \<and>
   rotateRefreshToken demo_access ''d2'' 200
       (session_db \<lparr> refreshToken_table :=
          [\<lparr> rt_id = 2, rt_token = ''d1====='', rt_userId = 0,
             rt_expiresAt = 100 + refresh_ttl \<rparr>],
        cuid_counter := 3 \<rparr>) ''rt-A'' =
     (Inl InvalidToken,
      session_db \<lparr> refreshToken_table :=
          [\<lparr> rt_id = 2, rt_token = ''d1====='', rt_userId = 0,
             rt_expiresAt = 100 + refresh_ttl \<rparr>],
        cuid_counter := 3 \<rparr>) \<and>
   200 < 100 + refresh_ttl \<and>
   fst (rotateRefreshToken demo_access ''d2'' 200
       (session_db \<lparr> refreshToken_table :=
          [\<lparr> rt_id = 2, rt_token = ''d1====='', rt_userId = 0,
             rt_expiresAt = 100 + refresh_ttl \<rparr>],
        cuid_counter := 3 \<rparr>) ''d1====='') = Inr (''jwt-0-at-200'', ''d2========'') \<and>
   find (\<lambda>r. rt_token r = ''rt-X'') (refreshToken_table session_db) = None \<and>
   rotateRefreshToken demo_access ''d1'' 100 session_db ''rt-X'' = (Inl InvalidToken, session_db) \<and>
   rt_expiresAt rowA \<le> 1000 \<and>
   rotateRefreshToken demo_access ''d1'' 1000 session_db ''rt-A'' =
     (Inl InvalidToken, session_db \<lparr> refreshToken_table := [] \<rparr>)"
proof -
  let ?db1 = "session_db \<lparr> refreshToken_table :=
          [\<lparr> rt_id = 2, rt_token = ''d1====='', rt_userId = 0,
             rt_expiresAt = 100 + refresh_ttl \<rparr>],
        cuid_counter := 3 \<rparr>"
  have fa: "find (\<lambda>r. rt_token r = ''rt-A'') (refreshToken_table session_db) = Some rowA"
    by (simp add: session_db_def rowA_def)
  have live: "100 < rt_expiresAt rowA"
    by (simp add: rowA_def)
  have dead: "rt_expiresAt rowA \<le> 1000"
    by (simp add: rowA_def)
  have fx: "find (\<lambda>r. rt_token r = ''rt-X'') (refreshToken_table session_db) = None"
    by (simp add: session_db_def rowA_def)
  have soon: "(200::nat) < 100 + refresh_ttl"
    by (simp add: refresh_ttl_def)
  have r1: "rotateRefreshToken demo_access ''d1'' 100 session_db ''rt-A'' =
      (Inr (''jwt-0-at-100'', ''d1=====''), ?db1)"
    by (simp add: rotateRefreshToken_def session_db_def rowA_def Let_def opaque_token_def
        longest_token_def demo_access_def demo_jwt_def codebook_jwt_def)
  note T = refresh_rotation_single_use
    [of "''rt-X''" session_db demo_access "''d1''" 100 "''rt-A''"]
  note E = refresh_rotation_single_use
    [of "''rt-A''" session_db demo_access "''d1''" 1000 "''rt-A''"]
  note R = mp [OF spec [OF spec [OF spec [OF conjunct2 [OF conjunct2 [OF conjunct2 [OF T]]]]]] r1]
  have ne: "''d1====='' \<noteq> ''rt-A''"
    by (rule conjunct1 [OF R])
  have r2: "rotateRefreshToken demo_access ''d2'' 200 ?db1 ''rt-A'' = (Inl InvalidToken, ?db1)"
    using conjunct1 [OF conjunct2 [OF conjunct2 [OF conjunct2 [OF R]]]] by blast
  have "\<exists>a' tokenC db2.
      rotateRefreshToken demo_access ''d2'' 200 ?db1 ''d1====='' = (Inr (a', tokenC), db2)"
    using conjunct2 [OF conjunct2 [OF conjunct2 [OF conjunct2 [OF R]]]] soon by blast
  then have r3: "fst (rotateRefreshToken demo_access ''d2'' 200 ?db1 ''d1====='')
      = Inr (''jwt-0-at-200'', ''d2========'')"
    by (simp add: rotateRefreshToken_def session_db_def Let_def opaque_token_def
        longest_token_def demo_access_def demo_jwt_def codebook_jwt_def refresh_ttl_def)
  have x: "rotateRefreshToken demo_access ''d1'' 100 session_db ''rt-X''
      = (Inl InvalidToken, session_db)"
    by (rule mp [OF conjunct1 [OF T] fx])
  have e: "rotateRefreshToken demo_access ''d1'' 1000 session_db ''rt-A''
      = (Inl InvalidToken, session_db \<lparr> refreshToken_table := [] \<rparr>)"
    using mp [OF spec [OF conjunct1 [OF conjunct2 [OF E]], of rowA]] fa dead
    by (simp add: session_db_def rowA_def)
  show ?thesis
    by (intro conjI) (fact fa live r1 ne r2 soon r3 fx x dead e)+
qed

end
